theory Spec2Isabelle
  imports Main "HOL-Library.Sublist"
begin

section \<open>JavaScript strings\<close>

text \<open>
  A JavaScript string is a sequence of UTF-16 code units. The model uses \<^typ>\<open>string\<close>,
  whose characters are the code units \<open>0 .. 255\<close> (ASCII and Latin-1); \<open>length\<close> counts
  code units as \<open>String.prototype.length\<close> does. Truthiness of a string is
  non-emptiness.
\<close>

definition codeUnit :: "char \<Rightarrow> nat" where
  "codeUnit c = of_char c"

text \<open>\<open>\s\<close> of the regular expressions, on the code units of the model: tab, line feed,
  vertical tab, form feed, carriage return, space and no-break space.\<close>

definition isSpace :: "char \<Rightarrow> bool" where
  "isSpace c = (codeUnit c \<in> {9, 10, 11, 12, 13, 32, 160})"

text \<open>The line terminators, which \<open>.\<close> does not match.\<close>

definition isLineTerminator :: "char \<Rightarrow> bool" where
  "isLineTerminator c = (codeUnit c \<in> {10, 13})"

definition isUpper :: "char \<Rightarrow> bool" where
  "isUpper c = (65 \<le> codeUnit c \<and> codeUnit c \<le> 90)"

definition isLower :: "char \<Rightarrow> bool" where
  "isLower c = (97 \<le> codeUnit c \<and> codeUnit c \<le> 122)"

definition isDigit :: "char \<Rightarrow> bool" where
  "isDigit c = (48 \<le> codeUnit c \<and> codeUnit c \<le> 57)"

text \<open>The class \<open>[!@#$%^&*(),.?":{}|<>_\-+=\[\]\\\/;`~]\<close>.\<close>

definition specialChars :: string where
  "specialChars = ''!@#$%^&*(),.?'' @ [CHR 0x22] @ '':{}|<>_-+=[]'' @ [CHR 0x5C]
     @ ''/;'' @ [CHR 0x60] @ ''~''"

definition isSpecial :: "char \<Rightarrow> bool" where
  "isSpecial c = (c \<in> set specialChars)"

text \<open>\<open>String.prototype.toLowerCase\<close> on the code units of the model: \<open>A-Z\<close> and the
  Latin-1 capitals \<open>0xC0 .. 0xDE\<close> (without the multiplication sign \<open>0xD7\<close>) move up by 32.\<close>

definition lowerChar :: "char \<Rightarrow> char" where
  "lowerChar c =
     (if isUpper c \<or> (192 \<le> codeUnit c \<and> codeUnit c \<le> 222 \<and> codeUnit c \<noteq> 215)
      then char_of (codeUnit c + 32) else c)"

definition toLowerCase :: "string \<Rightarrow> string" where
  "toLowerCase s = map lowerChar s"

text \<open>\<open>s.includes(sub)\<close>: \<open>sub\<close> occurs in \<open>s\<close> as a contiguous substring.\<close>

fun includes_str :: "string \<Rightarrow> string \<Rightarrow> bool" where
  "includes_str [] sub = (sub = [])"
| "includes_str (c # cs) sub = (prefix sub (c # cs) \<or> includes_str cs sub)"

text \<open>\<open>s.split(sep)\<close> for a one-character separator: never the empty array.\<close>

fun split_on :: "char \<Rightarrow> string \<Rightarrow> string list" where
  "split_on sep [] = [[]]"
| "split_on sep (c # cs) =
     (if c = sep then [] # split_on sep cs
      else (case split_on sep cs of [] \<Rightarrow> [[c]] | w # ws \<Rightarrow> (c # w) # ws))"

text \<open>\<open>/(.)\1{2,}/.test(s)\<close>: some character other than a line terminator stands three
  times in a row.\<close>

fun hasTripleRun :: "string \<Rightarrow> bool" where
  "hasTripleRun (a # b # c # rest) =
     ((a = b \<and> b = c \<and> \<not> isLineTerminator a) \<or> hasTripleRun (b # c # rest))"
| "hasTripleRun _ = False"

section \<open>Password validation (Signup.jsx)\<close>

record check =
  passed :: bool
  label :: string
  error :: string

record checks =
  length_c :: check
  uppercase :: check
  lowercase :: check
  number :: check
  special :: check
  common :: check
  sequential :: check
  repeated :: check

record password_result =
  pw_isValid :: bool
  pw_checks :: checks
  pw_errors :: "string list"

definition COMMON_PASSWORDS :: "string set" where
  "COMMON_PASSWORDS = {''password'', ''123456'', ''12345678'', ''qwerty'', ''abc123'',
     ''letmein'', ''password1'', ''123456789'', ''12345'', ''password123'', ''admin'',
     ''welcome''}"

definition sequences :: "string list" where
  "sequences = [''123'', ''234'', ''345'', ''456'', ''567'', ''678'', ''789'', ''abc'',
     ''bcd'', ''cde'']"

definition initialChecks :: checks where
  "initialChecks = \<lparr>
     length_c = \<lparr>passed = False, label = ''At least 8 characters'', error = ''''\<rparr>,
     uppercase = \<lparr>passed = False, label = ''One uppercase letter'', error = ''''\<rparr>,
     lowercase = \<lparr>passed = False, label = ''One lowercase letter'', error = ''''\<rparr>,
     number = \<lparr>passed = False, label = ''One number'', error = ''''\<rparr>,
     special = \<lparr>passed = False, label = ''One special character (!@#$...)'', error = ''''\<rparr>,
     common = \<lparr>passed = True, label = ''Not a common password'', error = ''''\<rparr>,
     sequential = \<lparr>passed = True, label = ''No sequential characters'', error = ''''\<rparr>,
     repeated = \<lparr>passed = True, label = ''No repeated characters'', error = ''''\<rparr>\<rparr>"

text \<open>One step of the body: \<open>c.passed = p; if (!c.passed) c.error = msg\<close>.\<close>

definition setCheck :: "bool \<Rightarrow> string \<Rightarrow> check \<Rightarrow> check" where
  "setCheck p msg c = (if p then c\<lparr>passed := True\<rparr> else c\<lparr>passed := False, error := msg\<rparr>)"

text \<open>\<open>Object.values(checks)\<close>, in the order the keys were inserted.\<close>

definition values_of :: "checks \<Rightarrow> check list" where
  "values_of cs = [length_c cs, uppercase cs, lowercase cs, number cs, special cs,
     common cs, sequential cs, repeated cs]"

definition collectErrors :: "checks \<Rightarrow> string list" where
  "collectErrors cs = map error (filter (\<lambda>c. \<not> passed c \<and> error c \<noteq> []) (values_of cs))"

definition validatePassword :: "string \<Rightarrow> password_result" where
  "validatePassword password =
     (if password = [] then
        \<lparr>pw_isValid = False, pw_checks = initialChecks, pw_errors = [''Password is required'']\<rparr>
      else
        let cs = initialChecks
              \<lparr>length_c := setCheck (length password \<ge> 8)
                  ''Password must be at least 8 characters'' (length_c initialChecks),
               uppercase := setCheck (list_ex isUpper password)
                  ''Add at least one uppercase letter (A-Z)'' (uppercase initialChecks),
               lowercase := setCheck (list_ex isLower password)
                  ''Add at least one lowercase letter (a-z)'' (lowercase initialChecks),
               number := setCheck (list_ex isDigit password)
                  ''Add at least one number (0-9)'' (number initialChecks),
               special := setCheck (list_ex isSpecial password)
                  ''Add at least one special character'' (special initialChecks),
               common := setCheck (toLowerCase password \<notin> COMMON_PASSWORDS)
                  ''This password is too common'' (common initialChecks),
               sequential := setCheck
                  (\<not> list_ex (\<lambda>seq. includes_str (toLowerCase password) seq) sequences)
                  ''Avoid sequential characters like 123 or abc'' (sequential initialChecks),
               repeated := setCheck (\<not> hasTripleRun password)
                  ''Avoid repeating the same character 3+ times'' (repeated initialChecks)\<rparr>;
            errors = collectErrors cs
        in \<lparr>pw_isValid = (length errors = 0), pw_checks = cs, pw_errors = errors\<rparr>)"

text \<open>The specification's words for the verdict: all eight entries of the per-check
  structure are passed.\<close>

definition allPassed :: "checks \<Rightarrow> bool" where
  "allPassed cs = list_all passed (values_of cs)"

section \<open>Regular expressions\<close>

text \<open>
  The regular expressions of the source without back-references, as a datatype, and
  \<open>RegExp.prototype.test\<close> for a pattern anchored with \<open>^\<close> and \<open>$\<close>: the whole string
  belongs to the language. Matching runs by derivatives.
\<close>

datatype rx =
    Nothing
  | Empty
  | Cls "char \<Rightarrow> bool"
  | Cat rx rx
  | Alt rx rx
  | Star rx

text \<open>\<open>r+\<close> is \<open>r r*\<close>.\<close>

definition Plus :: "rx \<Rightarrow> rx" where
  "Plus r = Cat r (Star r)"

definition Lit :: "char \<Rightarrow> rx" where
  "Lit a = Cls (\<lambda>c. c = a)"

primrec nullable :: "rx \<Rightarrow> bool" where
  "nullable Nothing = False"
| "nullable Empty = True"
| "nullable (Cls p) = False"
| "nullable (Cat r s) = (nullable r \<and> nullable s)"
| "nullable (Alt r s) = (nullable r \<or> nullable s)"
| "nullable (Star r) = True"

primrec deriv :: "char \<Rightarrow> rx \<Rightarrow> rx" where
  "deriv c Nothing = Nothing"
| "deriv c Empty = Nothing"
| "deriv c (Cls p) = (if p c then Empty else Nothing)"
| "deriv c (Cat r s) =
     (if nullable r then Alt (Cat (deriv c r) s) (deriv c s) else Cat (deriv c r) s)"
| "deriv c (Alt r s) = Alt (deriv c r) (deriv c s)"
| "deriv c (Star r) = Cat (deriv c r) (Star r)"

primrec test_anchored :: "rx \<Rightarrow> string \<Rightarrow> bool" where
  "test_anchored r [] = nullable r"
| "test_anchored r (c # cs) = test_anchored (deriv c r) cs"

text \<open>The language of a pattern, by which the matcher is justified.\<close>

inductive_set star :: "string set \<Rightarrow> string set" for A :: "string set" where
  star_nil: "[] \<in> star A"
| star_app: "u \<in> A \<Longrightarrow> v \<in> star A \<Longrightarrow> u @ v \<in> star A"

primrec lang :: "rx \<Rightarrow> string set" where
  "lang Nothing = {}"
| "lang Empty = {[]}"
| "lang (Cls p) = {[c] | c. p c}"
| "lang (Cat r s) = {u @ v | u v. u \<in> lang r \<and> v \<in> lang s}"
| "lang (Alt r s) = lang r \<union> lang s"
| "lang (Star r) = star (lang r)"

section \<open>Email validation (Signup.jsx)\<close>

record email_result =
  isValid :: bool
  errors :: "string list"

definition DISPOSABLE_DOMAINS :: "string set" where
  "DISPOSABLE_DOMAINS = {''tempmail.com'', ''throwaway.email'', ''guerrillamail.com'',
     ''mailinator.com'', ''10minutemail.com'', ''trashmail.com'', ''fakeinbox.com'',
     ''temp-mail.org'', ''yopmail.com'', ''maildrop.cc'', ''getnada.com'',
     ''sharklasers.com''}"

text \<open>The class \<open>[^\s@]\<close>.\<close>

definition notSpaceAt :: "char \<Rightarrow> bool" where
  "notSpaceAt c = (\<not> isSpace c \<and> c \<noteq> CHR ''@'')"

text \<open>\<open>/^[^\s@]+@[^\s@]+\.[^\s@]+$/\<close>\<close>

definition emailRegex :: rx where
  "emailRegex =
     Cat (Plus (Cls notSpaceAt))
       (Cat (Lit (CHR ''@''))
         (Cat (Plus (Cls notSpaceAt))
           (Cat (Lit (CHR ''.'')) (Plus (Cls notSpaceAt)))))"

text \<open>\<open>email.split('@')[1]?.toLowerCase()\<close>: \<open>None\<close> is \<open>undefined\<close>.\<close>

definition extractDomain :: "string \<Rightarrow> string option" where
  "extractDomain email =
     (case split_on (CHR ''@'') email of
        _ # d # _ \<Rightarrow> Some (toLowerCase d)
      | _ \<Rightarrow> None)"

definition disposableError :: string where
  "disposableError =
     ''Disposable email addresses are not allowed. Please use a legitimate email.''"

definition testDomainError :: string where
  "testDomainError = ''Test or temporary email domains are not allowed''"

definition missingDotError :: string where
  "missingDotError = ''Email domain is invalid''"

text \<open>The three checks on the domain, each pushing its message onto \<open>errors\<close>.\<close>

definition domainErrors :: "string \<Rightarrow> string list" where
  "domainErrors domain =
     (if domain \<in> DISPOSABLE_DOMAINS then [disposableError] else [])
     @ (if includes_str domain ''test'' \<or> includes_str domain ''example''
           \<or> includes_str domain ''temp''
        then [testDomainError] else [])
     @ (if \<not> includes_str domain ''.'' then [missingDotError] else [])"

definition validateEmail :: "string \<Rightarrow> email_result" where
  "validateEmail email =
     (if email = [] then \<lparr>isValid = False, errors = [''Email is required'']\<rparr>
      else if \<not> test_anchored emailRegex email then
        \<lparr>isValid = False, errors = [''Invalid email format'']\<rparr>
      else
        (case extractDomain email of
           None \<Rightarrow> \<lparr>isValid = False, errors = [''Invalid email domain'']\<rparr>
         | Some domain \<Rightarrow>
             if domain = [] then \<lparr>isValid = False, errors = [''Invalid email domain'']\<rparr>
             else
               let errs = domainErrors domain
               in \<lparr>isValid = (length errs = 0), errors = errs\<rparr>))"

section \<open>Backend calls\<close>

text \<open>
  A call through the request client is recorded, in the order of issue, in the state of
  the component that makes it. The backend's answer is an input of the handler: the
  promise fulfils with a payload or rejects, possibly with \<open>response.data.detail\<close>.
\<close>

datatype http_method = GET | POST | PUT | DELETE

record request =
  verb :: http_method
  path :: string
  body :: "(string \<times> string) list"

datatype 'a response = Fulfilled 'a | Rejected "string option"

text \<open>\<open>a || b\<close> on a possibly missing string: the first operand when it is truthy.\<close>

definition or_else :: "string option \<Rightarrow> string \<Rightarrow> string" where
  "or_else a b = (case a of None \<Rightarrow> b | Some s \<Rightarrow> if s = [] then b else s)"

section \<open>Geolocation enrichment (Signup.jsx, requestLocation)\<close>

record location =
  city :: string
  state :: string
  country :: string
  latitude :: string
  longitude :: string
  timezone :: string
  formatted :: string

text \<open>
  \<open>data.address\<close> of the reverse-geocoding answer; a field is \<open>None\<close> when the key is
  missing or null, and a string otherwise.
\<close>

record address =
  addr_city :: "string option"
  addr_town :: "string option"
  addr_village :: "string option"
  addr_state :: "string option"
  addr_country :: "string option"

text \<open>\<open>data.address || {}\<close>\<close>

definition emptyAddress :: address where
  "emptyAddress = \<lparr>addr_city = None, addr_town = None, addr_village = None,
     addr_state = None, addr_country = None\<rparr>"

text \<open>The body of the \<open>try\<close> block after \<open>response.json()\<close>; latitude and longitude are
  given as \<open>String(latitude)\<close> and \<open>String(longitude)\<close>, \<open>tz\<close> is the resolved time zone.\<close>

definition buildLocation :: "address option \<Rightarrow> string \<Rightarrow> string \<Rightarrow> string \<Rightarrow> location" where
  "buildLocation data_address lat lon tz =
     (let addr = (case data_address of None \<Rightarrow> emptyAddress | Some a \<Rightarrow> a);
          city = or_else (addr_city addr) (or_else (addr_town addr)
                   (or_else (addr_village addr) ''Unknown''));
          state = or_else (addr_state addr) [];
          country = or_else (addr_country addr) []
      in \<lparr>city = city, state = state, country = country,
          latitude = lat, longitude = lon, timezone = tz,
          formatted = city @ (if state \<noteq> [] then '', '' @ state else [])
                           @ (if country \<noteq> [] then '', '' @ country else [])\<rparr>)"

text \<open>What the platform and the geocoding service answer.\<close>

datatype position = Coords string string | PositionDenied

datatype geocoding = GeocodingFailed | GeocodingData "address option"

text \<open>
  The specification's words for the location record, to compare \<open>buildLocation\<close> with:
  parts joined with a separator (as \<open>Array.prototype.join\<close> does), and the first
  non-empty value of a list of possibly missing strings, else a default.
\<close>

fun join :: "string \<Rightarrow> string list \<Rightarrow> string" where
  "join sep [] = []"
| "join sep [x] = x"
| "join sep (x # y # ys) = x @ sep @ join sep (y # ys)"

fun firstNonEmpty :: "string option list \<Rightarrow> string \<Rightarrow> string" where
  "firstNonEmpty [] d = d"
| "firstNonEmpty (None # xs) d = firstNonEmpty xs d"
| "firstNonEmpty (Some s # xs) d = (if s \<noteq> [] then s else firstNonEmpty xs d)"

section \<open>Signup form (Signup.jsx)\<close>

record signup_state =
  su_email :: string
  su_password :: string
  su_name :: string
  su_occupation :: string
  su_allowLocation :: bool
  su_location :: "location option"
  su_locationError :: string
  su_error :: "string option"
  su_success :: bool
  su_loading :: bool
  su_emailValidation :: "email_result option"
  su_passwordValidation :: "password_result option"
  su_touched :: "bool \<times> bool"
  su_requests :: "request list"
  su_localStorage :: "string \<rightharpoonup> string"
  su_sessionStorage :: "string \<rightharpoonup> string"
  su_navigations :: "(nat \<times> string \<times> string) list"

definition requestLocation ::
  "bool \<Rightarrow> position \<Rightarrow> geocoding \<Rightarrow> string \<Rightarrow> signup_state \<Rightarrow> signup_state" where
  "requestLocation supported pos geo tz st =
     (if \<not> supported then
        st\<lparr>su_locationError := ''Geolocation not supported by your browser''\<rparr>
      else case pos of
        PositionDenied \<Rightarrow>
          st\<lparr>su_locationError :=
               ''Location access denied. You can set it later in settings.''\<rparr>
      | Coords lat lon \<Rightarrow>
          (case geo of
             GeocodingFailed \<Rightarrow>
               st\<lparr>su_locationError := ''Could not determine location details''\<rparr>
           | GeocodingData a \<Rightarrow>
               st\<lparr>su_location := Some (buildLocation a lat lon tz),
                   su_locationError := []\<rparr>))"

text \<open>The form as it is first rendered, with an email and a password typed in.\<close>

definition signupForm :: "string \<Rightarrow> string \<Rightarrow> signup_state" where
  "signupForm e p = \<lparr>su_email = e, su_password = p, su_name = [], su_occupation = [],
     su_allowLocation = True, su_location = None, su_locationError = [], su_error = None,
     su_success = False, su_loading = False, su_emailValidation = None,
     su_passwordValidation = None, su_touched = (False, False), su_requests = [],
     su_localStorage = Map.empty, su_sessionStorage = Map.empty, su_navigations = []\<rparr>"

definition signupPayload :: "signup_state \<Rightarrow> (string \<times> string) list" where
  "signupPayload st =
     [(''email'', su_email st), (''password'', su_password st)]
     @ (if su_name st \<noteq> [] then [(''name'', su_name st)] else [])
     @ (if su_occupation st \<noteq> [] then [(''occupation'', su_occupation st)] else [])
     @ (case su_location st of
          None \<Rightarrow> []
        | Some l \<Rightarrow>
            [(''location_city'', city l), (''location_state'', state l),
             (''location_country'', country l), (''location_latitude'', latitude l),
             (''location_longitude'', longitude l), (''location_timezone'', timezone l),
             (''location_formatted'', formatted l)])"

definition signupRequest :: "signup_state \<Rightarrow> request" where
  "signupRequest st = \<lparr>verb = POST, path = ''/auth/signup'', body = signupPayload st\<rparr>"

definition validationError :: string where
  "validationError = ''Please fix the validation errors before submitting''"

text \<open>The submit handler; \<open>resp\<close> is the backend's answer to the signup call, read
  only when the call is made.\<close>

definition submit :: "unit response \<Rightarrow> signup_state \<Rightarrow> signup_state" where
  "submit resp st =
     (let st1 = st\<lparr>su_error := None, su_touched := (True, True)\<rparr>;
          emailVal = validateEmail (su_email st1);
          passwordVal = validatePassword (su_password st1);
          st2 = st1\<lparr>su_emailValidation := Some emailVal,
                    su_passwordValidation := Some passwordVal\<rparr>
      in if \<not> isValid emailVal \<or> \<not> pw_isValid passwordVal then
           st2\<lparr>su_error := Some validationError\<rparr>
         else
           let st3 = st2\<lparr>su_loading := True\<rparr>;
               st4 = st3\<lparr>su_requests := su_requests st3 @ [signupRequest st3]\<rparr>;
               st5 = (case resp of
                        Fulfilled _ \<Rightarrow>
                          st4\<lparr>su_success := True,
                              su_localStorage := (su_localStorage st4)(''token'' := None),
                              su_sessionStorage := (su_sessionStorage st4)(''token'' := None),
                              su_navigations := su_navigations st4
                                @ [(1500, ''/verify-email'', su_email st4)]\<rparr>
                      | Rejected detail \<Rightarrow>
                          st4\<lparr>su_error :=
                                Some (or_else detail ''Signup failed. Please try again.'')\<rparr>)
           in st5\<lparr>su_loading := False\<rparr>)"

section \<open>Email verification landing page (EmailVerifiedPage.jsx)\<close>

datatype status = Verifying | Success | Error | AlreadyVerified

text \<open>
  The state of the component: the guard \<open>verificationAttempted\<close> is a ref, which keeps
  its value over every render; the other fields are component state.
\<close>

record verify_state =
  verificationAttempted :: bool
  ev_status :: status
  ev_message :: string
  ev_email :: string
  ev_countdown :: nat
  ev_requests :: "request list"

definition initialVerifyState :: verify_state where
  "initialVerifyState = \<lparr>verificationAttempted = False, ev_status = Verifying,
     ev_message = [], ev_email = [], ev_countdown = 3, ev_requests = []\<rparr>"

definition missingTokenMessage :: string where
  "missingTokenMessage = ''Invalid verification link. Token is missing.''"

text \<open>\<open>!token\<close> for the result of \<open>searchParams.get('token')\<close>: null or the empty string.\<close>

definition tokenAbsent :: "string option \<Rightarrow> bool" where
  "tokenAbsent token = (case token of None \<Rightarrow> True | Some t \<Rightarrow> t = [])"

definition verifyRequest :: "string \<Rightarrow> request" where
  "verifyRequest t = \<lparr>verb = GET, path = ''/auth/verify-email?token='' @ t, body = []\<rparr>"

text \<open>One run of the effect: \<open>verifyEmail\<close> up to its \<open>await\<close>.\<close>

definition verifyEmail :: "string option \<Rightarrow> verify_state \<Rightarrow> verify_state" where
  "verifyEmail token st =
     (if verificationAttempted st then st
      else
        let st1 = st\<lparr>verificationAttempted := True\<rparr>
        in case token of
             None \<Rightarrow> st1\<lparr>ev_status := Error, ev_message := missingTokenMessage\<rparr>
           | Some t \<Rightarrow>
               if t = [] then st1\<lparr>ev_status := Error, ev_message := missingTokenMessage\<rparr>
               else st1\<lparr>ev_requests := ev_requests st1 @ [verifyRequest t]\<rparr>)"

text \<open>The answer of the backend: \<open>response.data\<close> with its status, message and email.\<close>

record verify_data =
  vd_status :: string
  vd_message :: string
  vd_email :: string

text \<open>The rest of \<open>verifyEmail\<close>, run when the call has settled.\<close>

definition verifyEmailSettled :: "verify_data response \<Rightarrow> verify_state \<Rightarrow> verify_state" where
  "verifyEmailSettled resp st =
     (case resp of
        Fulfilled d \<Rightarrow>
          if vd_status d = ''success'' then
            st\<lparr>ev_status := Success, ev_message := vd_message d, ev_email := vd_email d\<rparr>
          else if vd_status d = ''already_verified'' then
            st\<lparr>ev_status := AlreadyVerified, ev_message := vd_message d\<rparr>
          else st\<lparr>ev_status := Error, ev_message := ''Unexpected response from server.''\<rparr>
      | Rejected detail \<Rightarrow>
          st\<lparr>ev_status := Error,
             ev_message := or_else detail
               ''Verification failed. The link may be invalid or expired.''\<rparr>)"

text \<open>The page is mounted, which runs the effect once, and then rendered again \<open>n\<close>
  times, the effect running again at each render.\<close>

fun rerendered :: "string option \<Rightarrow> nat \<Rightarrow> verify_state" where
  "rerendered token 0 = verifyEmail token initialVerifyState"
| "rerendered token (Suc n) = verifyEmail token (rerendered token n)"

section \<open>Chat shell (Chat.jsx)\<close>

record thread =
  thread_id :: string
  thread_title :: string

datatype role = User | Assistant

text \<open>\<open>{role, content}\<close> or \<open>{role, type: 'file', filename}\<close>\<close>

datatype message = Content role string | File role string

text \<open>What a key of the durable storage holds: the JSON text of a thread, or a text
  on which \<open>JSON.parse\<close> throws.\<close>

datatype stored = ThreadJson thread | Unparsable string

record chat_config =
  cfg_model :: string
  cfg_temperature :: string
  cfg_system_prompt :: string

text \<open>
  The argument of the setter of the message list: the updater \<open>(m) => [...m, x]\<close>, or a
  new list. React queues it and applies it when it next renders the component.
\<close>

datatype updater = Append message | Replace "message list"

fun applyUpdater :: "updater \<Rightarrow> message list \<Rightarrow> message list" where
  "applyUpdater (Append x) m = m @ [x]"
| "applyUpdater (Replace ms) m = ms"

text \<open>What the handlers do to the outside, in the order they do it: a call is issued, an
  alert is shown, the setter of the message list is called.\<close>

datatype effect = Call request | Alert string | SetMessages updater

record chat_state =
  messages :: "message list"
  thread :: "thread option"
  config :: chat_config
  localStorage :: "string \<rightharpoonup> stored"
  effects :: "effect list"

definition calls :: "chat_state \<Rightarrow> request list" where
  "calls st = concat (map (\<lambda>e. case e of Call r \<Rightarrow> [r] | _ \<Rightarrow> []) (effects st))"

definition alert :: "string \<Rightarrow> chat_state \<Rightarrow> chat_state" where
  "alert msg st = st\<lparr>effects := effects st @ [Alert msg]\<rparr>"

definition call :: "request \<Rightarrow> chat_state \<Rightarrow> chat_state" where
  "call r st = st\<lparr>effects := effects st @ [Call r]\<rparr>"

text \<open>
  \<open>setMessages(u)\<close>: the call is recorded among the effects, at its place in the order.
  The field \<open>messages\<close> is the list with every updater queued so far applied to it: the
  list that the component shows once React has rendered, not the one that the running
  handler still sees.
\<close>

definition setMessages :: "updater \<Rightarrow> chat_state \<Rightarrow> chat_state" where
  "setMessages u st =
     st\<lparr>messages := applyUpdater u (messages st), effects := effects st @ [SetMessages u]\<rparr>"

definition initialChat :: chat_state where
  "initialChat = \<lparr>messages = [], thread = None,
     config = \<lparr>cfg_model = ''gpt-4o-mini'', cfg_temperature = ''1'', cfg_system_prompt = []\<rparr>,
     localStorage = Map.empty, effects = []\<rparr>"

text \<open>\<open>renameChat\<close>: \<open>answer\<close> is what \<open>prompt\<close> returns (\<open>None\<close> when cancelled), \<open>resp\<close> the
  backend's answer.\<close>

definition renameChat :: "string option \<Rightarrow> unit response \<Rightarrow> chat_state \<Rightarrow> chat_state" where
  "renameChat answer resp st =
     (case thread st of
        None \<Rightarrow> alert ''No chat selected'' st
      | Some t \<Rightarrow>
          (case answer of
             None \<Rightarrow> st
           | Some newTitle \<Rightarrow>
               if newTitle = [] \<or> newTitle = thread_title t then st
               else
                 let st1 = call \<lparr>verb = PUT, path = ''/threads/'' @ thread_id t,
                                 body = [(''title'', newTitle)]\<rparr> st
                 in case resp of
                      Fulfilled _ \<Rightarrow>
                        let updated = t\<lparr>thread_title := newTitle\<rparr>
                        in alert ''Chat renamed''
                             (st1\<lparr>thread := Some updated,
                                  localStorage := (localStorage st1)
                                    (''last-thread'' \<mapsto> ThreadJson updated)\<rparr>)
                    | Rejected _ \<Rightarrow> alert ''Rename failed'' st1))"

text \<open>\<open>deleteChat\<close>: \<open>confirmed\<close> is what \<open>window.confirm\<close> returns.\<close>

definition deleteChat :: "bool \<Rightarrow> unit response \<Rightarrow> chat_state \<Rightarrow> chat_state" where
  "deleteChat confirmed resp st =
     (case thread st of
        None \<Rightarrow> alert ''No chat selected'' st
      | Some t \<Rightarrow>
          if \<not> confirmed then st
          else
            let st1 = call \<lparr>verb = DELETE, path = ''/threads/'' @ thread_id t, body = []\<rparr> st
            in case resp of
                 Fulfilled _ \<Rightarrow>
                   (let st2 = setMessages (Replace []) (st1\<lparr>thread := None\<rparr>)
                    in alert ''Chat deleted''
                         (st2\<lparr>localStorage := (localStorage st2)(''last-thread'' := None)\<rparr>))
               | Rejected _ \<Rightarrow> alert ''Delete failed'' st1)"















section \<open>Request client (api.js)\<close>

text \<open>\<open>api.defaults.headers.common\<close> and the durable storage.\<close>

record api_state =
  headers :: "string \<rightharpoonup> string"
  storage :: "string \<rightharpoonup> string"

text \<open>\<open>setAuth(token)\<close>: \<open>None\<close> is null, and the empty string is falsy as null is.\<close>

definition setAuth :: "string option \<Rightarrow> api_state \<Rightarrow> api_state" where
  "setAuth token st =
     (case token of
        None \<Rightarrow> st\<lparr>headers := (headers st)(''Authorization'' := None),
                   storage := (storage st)(''token'' := None)\<rparr>
      | Some t \<Rightarrow>
          if t \<noteq> [] then
            st\<lparr>headers := (headers st)(''Authorization'' \<mapsto> ''Bearer '' @ t),
               storage := (storage st)(''token'' \<mapsto> t)\<rparr>
          else
            st\<lparr>headers := (headers st)(''Authorization'' := None),
               storage := (storage st)(''token'' := None)\<rparr>)"

definition getToken :: "api_state \<Rightarrow> string option" where
  "getToken st = storage st ''token''"

definition initialApi :: api_state where
  "initialApi = \<lparr>headers = Map.empty, storage = Map.empty\<rparr>"

section \<open>Invariants used in the proofs\<close>

text \<open>A check that has not passed carries its message.\<close>

definition explained :: "check \<Rightarrow> bool" where
  "explained c = (passed c \<or> error c \<noteq> [])"

text \<open>\<open>[^\s@]+\.[^\s@]+\<close>, the part of the email pattern after the \<open>@\<close>.\<close>

definition domainRegex :: rx where
  "domainRegex = Cat (Plus (Cls notSpaceAt)) (Cat (Lit (CHR ''.'')) (Plus (Cls notSpaceAt)))"

section \<open>The matcher decides the language\<close>

lemmas class_defs = isUpper_def isLower_def isDigit_def isSpecial_def specialChars_def
  codeUnit_def isLineTerminator_def isSpace_def notSpaceAt_def

lemma nullable_lang: "nullable r \<longleftrightarrow> [] \<in> lang r"
  by (induction r) (auto intro: star.star_nil)

lemma star_cons_iff:
  "c # w \<in> star A \<longleftrightarrow> (\<exists>u v. w = u @ v \<and> c # u \<in> A \<and> v \<in> star A)"
proof
  assume "c # w \<in> star A"
  then show "\<exists>u v. w = u @ v \<and> c # u \<in> A \<and> v \<in> star A"
  proof (induction "c # w" arbitrary: w rule: star.induct)
    case (star_app u v)
    show ?case
    proof (cases u)
      case Nil
      with star_app show ?thesis by simp
    next
      case (Cons a u')
      with star_app.hyps show ?thesis by auto
    qed
  qed
next
  assume "\<exists>u v. w = u @ v \<and> c # u \<in> A \<and> v \<in> star A"
  then obtain u v where "w = u @ v" "c # u \<in> A" "v \<in> star A" by blast
  then have "(c # u) @ v \<in> star A" by (intro star.star_app)
  with \<open>w = u @ v\<close> show "c # w \<in> star A" by simp
qed

lemma lang_deriv: "lang (deriv c r) = {w. c # w \<in> lang r}"
proof (induction r)
  case (Cat r s)
  show ?case
  proof (cases "nullable r")
    case True
    then have "[] \<in> lang r" by (simp add: nullable_lang)
    with Cat True show ?thesis
      by (auto simp: Cons_eq_append_conv)
  next
    case False
    then have "[] \<notin> lang r" by (simp add: nullable_lang)
    with Cat False show ?thesis
      by (auto simp: Cons_eq_append_conv)
  qed
next
  case (Star r)
  then show ?case by (auto simp: star_cons_iff)
qed auto

lemma test_anchored_lang: "test_anchored r s \<longleftrightarrow> s \<in> lang r"
  by (induction s arbitrary: r) (simp_all add: nullable_lang lang_deriv)

lemma star_cls: "star {[c] | c. p c} = {w. list_all p w}"
proof (intro set_eqI iffI)
  fix w assume "w \<in> star {[c] | c. p c}"
  then show "w \<in> {w. list_all p w}" by (induction rule: star.induct) auto
next
  fix w assume "w \<in> {w. list_all p w}"
  then have "list_all p w" by simp
  then show "w \<in> star {[c] | c. p c}"
  proof (induction w)
    case Nil
    show ?case by (rule star.star_nil)
  next
    case (Cons a w)
    then have "[a] \<in> {[c] | c. p c}" "w \<in> star {[c] | c. p c}" by auto
    then have "[a] @ w \<in> star {[c] | c. p c}" by (rule star.star_app)
    then show ?case by simp
  qed
qed

lemma lang_Plus_Cls: "lang (Plus (Cls p)) = {w. w \<noteq> [] \<and> list_all p w}"
proof -
  have "\<exists>u v. x = u @ v \<and> (\<exists>c. u = [c] \<and> p c) \<and> list_all p v"
    if "x \<noteq> []" "list_all p x" for x
  proof (cases x)
    case Nil
    with that show ?thesis by simp
  next
    case (Cons a w)
    with that have "x = [a] @ w \<and> p a \<and> list_all p w" by simp
    then show ?thesis by blast
  qed
  then show ?thesis by (auto simp: Plus_def star_cls)
qed

lemma lang_Lit: "lang (Lit a) = {[a]}"
  by (auto simp: Lit_def)

text \<open>What the email pattern accepts: a local part, \<open>@\<close>, a label, a dot and a rest, the
  three parts non-empty and free of white space and \<open>@\<close>.\<close>

lemma emailRegex_iff:
  "test_anchored emailRegex s \<longleftrightarrow>
     (\<exists>a b c. s = a @ CHR ''@'' # b @ CHR ''.'' # c \<and> a \<noteq> [] \<and> b \<noteq> [] \<and> c \<noteq> [] \<and>
        list_all notSpaceAt a \<and> list_all notSpaceAt b \<and> list_all notSpaceAt c)"
  unfolding test_anchored_lang emailRegex_def
  by (simp only: lang.simps(4) lang_Plus_Cls lang_Lit) fastforce

section \<open>Splitting at the separator\<close>

lemma split_on_no_sep: "sep \<notin> set ys \<Longrightarrow> split_on sep ys = [ys]"
  by (induction ys) auto

lemma split_on_append:
  "sep \<notin> set xs \<Longrightarrow> split_on sep (xs @ sep # ys) = xs # split_on sep ys"
  by (induction xs) auto

lemma notSpaceAt_no_at: "list_all notSpaceAt w \<Longrightarrow> CHR ''@'' \<notin> set w"
  by (auto simp: list_all_iff notSpaceAt_def)

lemma after_last_sep:
  assumes "sep \<notin> set ys"
  shows "rev (takeWhile (\<lambda>c. c \<noteq> sep) (rev (xs @ sep # ys))) = ys"
proof -
  from assms have "\<And>x. x \<in> set (rev ys) \<Longrightarrow> x \<noteq> sep" by auto
  then have "takeWhile (\<lambda>c. c \<noteq> sep) (rev ys @ sep # rev xs)
      = rev ys @ takeWhile (\<lambda>c. c \<noteq> sep) (sep # rev xs)"
    by (rule takeWhile_append2)
  then show ?thesis by simp
qed

lemma same_tail:
  assumes "xs @ sep # ys = xs' @ sep # ys'" "sep \<notin> set ys" "sep \<notin> set ys'"
  shows "ys = ys'"
  using after_last_sep [OF assms(2), of xs] after_last_sep [OF assms(3), of xs'] assms(1)
  by simp

lemma includes_str_single: "includes_str s [c] \<longleftrightarrow> c \<in> set s"
  by (induction s) auto

lemma lowerChar_dot: "lowerChar (CHR ''.'') = CHR ''.''"
  by (simp add: lowerChar_def isUpper_def codeUnit_def)

lemma toLowerCase_keeps_dot: "CHR ''.'' \<in> set w \<Longrightarrow> CHR ''.'' \<in> set (toLowerCase w)"
  unfolding toLowerCase_def using lowerChar_dot by (metis image_eqI set_map)

lemma extractDomain_shape:
  assumes "list_all notSpaceAt a" "list_all notSpaceAt d"
  shows "extractDomain (a @ CHR ''@'' # d) = Some (toLowerCase d)"
  using assms by (simp add: extractDomain_def split_on_append split_on_no_sep notSpaceAt_no_at)

lemma matched_domain:
  assumes "test_anchored emailRegex email"
  shows "\<exists>d. extractDomain email = Some d \<and> d \<noteq> [] \<and> includes_str d ''.''"
proof -
  from assms obtain a b c where e: "email = a @ CHR ''@'' # b @ CHR ''.'' # c"
    and cl: "list_all notSpaceAt a" "list_all notSpaceAt b" "list_all notSpaceAt c"
    unfolding emailRegex_iff by blast
  have dot: "notSpaceAt (CHR ''.'')" by (simp add: class_defs)
  let ?d = "b @ CHR ''.'' # c"
  from cl dot have "list_all notSpaceAt ?d" by simp
  with cl(1) have "extractDomain (a @ CHR ''@'' # ?d) = Some (toLowerCase ?d)"
    by (rule extractDomain_shape)
  moreover have "toLowerCase ?d \<noteq> []" by (simp add: toLowerCase_def)
  moreover have "includes_str (toLowerCase ?d) ''.''"
    unfolding includes_str_single by (rule toLowerCase_keeps_dot) simp
  ultimately show ?thesis using e by simp
qed

section \<open>The disposable domains\<close>

lemma disposable_shape:
  assumes "D \<in> DISPOSABLE_DOMAINS"
  shows "test_anchored domainRegex D \<and> list_all notSpaceAt D \<and> toLowerCase D = D \<and> D \<noteq> []"
  using assms unfolding DISPOSABLE_DOMAINS_def domainRegex_def
  by (auto simp: Plus_def Lit_def class_defs toLowerCase_def lowerChar_def)

lemma disposable_matches:
  assumes "L \<noteq> []" "list_all notSpaceAt L" "D \<in> DISPOSABLE_DOMAINS"
  shows "test_anchored emailRegex (L @ CHR ''@'' # D)"
proof -
  from assms(3) have "D \<in> lang domainRegex" using disposable_shape test_anchored_lang by blast
  moreover from assms(1,2) have "L \<in> lang (Plus (Cls notSpaceAt))" by (simp add: lang_Plus_Cls)
  moreover have "[CHR ''@''] \<in> lang (Lit (CHR ''@''))" by (simp add: lang_Lit)
  ultimately have "L @ [CHR ''@''] @ D \<in> lang emailRegex"
    unfolding emailRegex_def domainRegex_def lang.simps(4) by blast
  then show ?thesis by (simp add: test_anchored_lang)
qed

lemma disposable_local_part:
  assumes "D \<in> DISPOSABLE_DOMAINS" "test_anchored emailRegex (L @ CHR ''@'' # D)"
  shows "L \<noteq> [] \<and> list_all notSpaceAt L"
proof -
  from assms(2) obtain a b c where e: "L @ CHR ''@'' # D = a @ CHR ''@'' # b @ CHR ''.'' # c"
    and ne: "a \<noteq> []"
    and cl: "list_all notSpaceAt a" "list_all notSpaceAt b" "list_all notSpaceAt c"
    unfolding emailRegex_iff by blast
  have dot: "notSpaceAt (CHR ''.'')" by (simp add: class_defs)
  from cl dot have "list_all notSpaceAt (b @ CHR ''.'' # c)" by simp
  then have "CHR ''@'' \<notin> set (b @ CHR ''.'' # c)" by (rule notSpaceAt_no_at)
  moreover from assms(1) have "CHR ''@'' \<notin> set D"
    using disposable_shape notSpaceAt_no_at by blast
  ultimately have "D = b @ CHR ''.'' # c" using e same_tail by metis
  with e have "L = a" by simp
  with ne cl(1) show ?thesis by simp
qed

lemma disposable_result:
  assumes "L \<noteq> []" "list_all notSpaceAt L" "D \<in> DISPOSABLE_DOMAINS"
  shows "\<not> isValid (validateEmail (L @ CHR ''@'' # D))
     \<and> disposableError \<in> set (errors (validateEmail (L @ CHR ''@'' # D)))"
proof -
  from assms(3) have D: "list_all notSpaceAt D" "toLowerCase D = D" "D \<noteq> []"
    using disposable_shape by blast+
  have m: "test_anchored emailRegex (L @ CHR ''@'' # D)" using assms by (rule disposable_matches)
  have x: "extractDomain (L @ CHR ''@'' # D) = Some D"
    using extractDomain_shape [OF assms(2) D(1)] D(2) by simp
  show ?thesis using m x D(3) assms(3)
    by (simp add: validateEmail_def Let_def domainErrors_def)
qed

lemma unmatched_result:
  assumes "\<not> test_anchored emailRegex email" "email \<noteq> []"
  shows "\<not> isValid (validateEmail email) \<and> errors (validateEmail email) = [''Invalid email format'']"
  using assms by (simp add: validateEmail_def)

section \<open>Helper facts on the password checks\<close>

lemma setCheck_explained: "msg \<noteq> [] \<Longrightarrow> explained (setCheck p msg c)"
  by (simp add: setCheck_def explained_def)

lemma collectErrors_empty_iff:
  "list_all explained (values_of cs) \<Longrightarrow> (collectErrors cs = []) = allPassed cs"
  by (auto simp: collectErrors_def allPassed_def filter_empty_conv list_all_iff explained_def)

lemma validatePassword_explained:
  "password \<noteq> [] \<Longrightarrow> list_all explained (values_of (pw_checks (validatePassword password)))"
  by (simp add: validatePassword_def Let_def values_of_def setCheck_explained)

lemma validatePassword_isValid:
  "password \<noteq> [] \<Longrightarrow>
     pw_isValid (validatePassword password)
       = (collectErrors (pw_checks (validatePassword password)) = [])"
  by (simp add: validatePassword_def Let_def)

lemmas password_defs = validatePassword_def Let_def collectErrors_def values_of_def
  setCheck_def initialChecks_def toLowerCase_def lowerChar_def COMMON_PASSWORDS_def
  sequences_def

lemma strong_password: "pw_isValid (validatePassword ''Passw0rd!'')"
  by (simp add: password_defs class_defs)

lemmas email_defs = validateEmail_def emailRegex_def Plus_def Lit_def extractDomain_def
  domainErrors_def DISPOSABLE_DOMAINS_def toLowerCase_def lowerChar_def Let_def

lemma plain_email: "isValid (validateEmail ''a@b.co'')"
  by (simp add: email_defs class_defs)

lemma dotless_email: "\<not> isValid (validateEmail ''a@b'')"
  by (simp add: email_defs class_defs)

section \<open>Helper facts on the verification page\<close>

lemma verifyEmail_idem: "verificationAttempted st \<Longrightarrow> verifyEmail token st = st"
  by (simp add: verifyEmail_def)

lemma verifyEmail_sets_guard: "verificationAttempted (verifyEmail token st)"
  by (simp add: verifyEmail_def Let_def split: option.splits)

lemma rerendered_const: "rerendered token n = rerendered token 0"
  by (induction n) (simp_all add: verifyEmail_idem verifyEmail_sets_guard)

lemma token_present_one_call:
  "t \<noteq> [] \<Longrightarrow> ev_requests (rerendered (Some t) n) = [verifyRequest t]"
  unfolding rerendered_const [of "Some t" n]
  by (simp add: verifyEmail_def initialVerifyState_def Let_def)

lemma settled_keeps_guard_and_requests:
  "verificationAttempted (verifyEmailSettled resp st) = verificationAttempted st
   \<and> ev_requests (verifyEmailSettled resp st) = ev_requests st"
  by (simp add: verifyEmailSettled_def split: response.splits)

section \<open>Helper facts on the chat shell\<close>

lemma or_else_first: "or_else a (firstNonEmpty xs d) = firstNonEmpty (a # xs) d"
  by (cases a) (simp_all add: or_else_def)









section \<open>The claims\<close>

text \<open>
  C1. For every email and password on the signup form: when \<open>validateEmail\<close> or
  \<open>validatePassword\<close> rejects, the submit handler issues no call and sets the local
  validation error; when both accept, it issues exactly one call, a POST to
  \<open>/auth/signup\<close>.
\<close>

theorem submit_gate:
  "(\<not> isValid (validateEmail (su_email st)) \<or> \<not> pw_isValid (validatePassword (su_password st))
      \<longrightarrow> su_requests (submit resp st) = su_requests st
          \<and> su_error (submit resp st) = Some validationError)
   \<and> (isValid (validateEmail (su_email st)) \<and> pw_isValid (validatePassword (su_password st))
      \<longrightarrow> su_requests (submit resp st) = su_requests st @ [signupRequest st]
          \<and> verb (signupRequest st) = POST \<and> path (signupRequest st) = ''/auth/signup'')"
  by (auto simp: submit_def Let_def signupRequest_def signupPayload_def split: response.splits)

text \<open>
  C1, at two forms: an email without a dot in its domain with a strong password issues
  no call; a well-formed email with the same password issues one POST.
\<close>

theorem submit_gate_witness:
  "\<not> isValid (validateEmail ''a@b'')
   \<and> su_requests (submit (Fulfilled ()) (signupForm ''a@b'' ''Passw0rd!'')) = []
   \<and> su_error (submit (Fulfilled ()) (signupForm ''a@b'' ''Passw0rd!'')) = Some validationError
   \<and> isValid (validateEmail ''a@b.co'') \<and> pw_isValid (validatePassword ''Passw0rd!'')
   \<and> su_requests (submit (Fulfilled ()) (signupForm ''a@b.co'' ''Passw0rd!''))
       = [\<lparr>verb = POST, path = ''/auth/signup'',
           body = [(''email'', ''a@b.co''), (''password'', ''Passw0rd!'')]\<rparr>]"
  using submit_gate [of "signupForm ''a@b'' ''Passw0rd!''" "Fulfilled ()"]
    submit_gate [of "signupForm ''a@b.co'' ''Passw0rd!''" "Fulfilled ()"]
    dotless_email plain_email strong_password
  by (simp add: signupForm_def signupRequest_def signupPayload_def)

text \<open>
  C2, as the spec states it, fails: for \<open>abc12345\<close> the errors are not just the uppercase
  and the special-character message, because the sequential check fails as well
  (\<open>abc\<close>, \<open>123\<close>, \<open>234\<close> and \<open>345\<close> are all in the list of sequences).
\<close>

theorem abc12345_counterexample:
  "pw_errors (validatePassword ''abc12345'')
     \<noteq> [''Add at least one uppercase letter (A-Z)'', ''Add at least one special character'']
   \<and> \<not> passed (sequential (pw_checks (validatePassword ''abc12345'')))"
  by (simp add: password_defs class_defs)

text \<open>
  C2, amended: \<open>validatePassword("abc12345")\<close> fails exactly the uppercase, the
  special-character and the sequential check; \<open>isValid\<close> is false and exactly those
  three messages are the errors, in this order.
\<close>

theorem abc12345_result:
  "map passed (values_of (pw_checks (validatePassword ''abc12345'')))
     = [True, False, True, True, False, True, False, True]
   \<and> \<not> pw_isValid (validatePassword ''abc12345'')
   \<and> pw_errors (validatePassword ''abc12345'')
     = [''Add at least one uppercase letter (A-Z)'', ''Add at least one special character'',
        ''Avoid sequential characters like 123 or abc'']"
  by (simp add: password_defs class_defs)

text \<open>
  C3. For every token and every number of further renders of the landing page, at most
  one verification call is issued; when the token is absent, none is issued and the
  page reports the missing token.
\<close>

theorem verifyEmail_at_most_once:
  "length (ev_requests (rerendered token n)) \<le> 1
   \<and> (tokenAbsent token \<longrightarrow>
        ev_requests (rerendered token n) = []
        \<and> ev_status (rerendered token n) = Error
        \<and> ev_message (rerendered token n) = missingTokenMessage)"
  unfolding rerendered_const [of token n]
  by (auto simp: verifyEmail_def initialVerifyState_def tokenAbsent_def Let_def
      split: option.splits)

text \<open>C3, at three further renders: without a token, and with the token \<open>abc\<close>.\<close>

theorem verifyEmail_at_most_once_witness:
  "tokenAbsent None
   \<and> ev_requests (rerendered None 3) = [] \<and> ev_status (rerendered None 3) = Error
   \<and> ev_message (rerendered None 3) = ''Invalid verification link. Token is missing.''
   \<and> length (ev_requests (rerendered (Some ''abc'') 3)) \<le> 1"
  using verifyEmail_at_most_once [of None 3] verifyEmail_at_most_once [of "Some ''abc''" 3]
  by (simp add: tokenAbsent_def missingTokenMessage_def)
text \<open>
  C4, as stated, fails: a local part with a space in it (or an empty one) does not pass
  the format check, and the result then holds the format error only.
\<close>

theorem disposable_counterexample:
  "''yopmail.com'' \<in> DISPOSABLE_DOMAINS
   \<and> disposableError \<notin> set (errors (validateEmail (''john doe'' @ ''@'' @ ''yopmail.com'')))"
  by (simp add: email_defs class_defs disposableError_def)

text \<open>
  C4, amended: for every domain \<open>D\<close> of the disposable set and every local part \<open>L\<close>,
  \<open>validateEmail(L + "@" + D)\<close> is invalid; the disposable-domain message is among its
  errors exactly when \<open>L\<close> is non-empty and has neither white space nor \<open>@\<close> in it, and
  otherwise the format message is its only error.
\<close>

theorem disposable_rejected:
  assumes "D \<in> DISPOSABLE_DOMAINS"
  shows "\<not> isValid (validateEmail (L @ ''@'' @ D))
     \<and> (disposableError \<in> set (errors (validateEmail (L @ ''@'' @ D)))
          \<longleftrightarrow> L \<noteq> [] \<and> list_all notSpaceAt L)
     \<and> (\<not> (L \<noteq> [] \<and> list_all notSpaceAt L)
          \<longrightarrow> errors (validateEmail (L @ ''@'' @ D)) = [''Invalid email format''])"
proof (cases "test_anchored emailRegex (L @ CHR ''@'' # D)")
  case True
  with assms have "L \<noteq> [] \<and> list_all notSpaceAt L" by (rule disposable_local_part)
  with assms show ?thesis using disposable_result [of L D] by simp
next
  case False
  with assms have "\<not> (L \<noteq> [] \<and> list_all notSpaceAt L)" using disposable_matches by blast
  moreover from False
  have "\<not> isValid (validateEmail (L @ CHR ''@'' # D))
      \<and> errors (validateEmail (L @ CHR ''@'' # D)) = [''Invalid email format'']"
    by (intro unmatched_result) simp_all
  ultimately show ?thesis by (simp add: disposableError_def)
qed

text \<open>C4, amended, at \<open>bob@yopmail.com\<close> and at \<open>john doe@yopmail.com\<close>.\<close>

theorem disposable_rejected_witness:
  "''yopmail.com'' \<in> DISPOSABLE_DOMAINS
   \<and> \<not> isValid (validateEmail ''bob@yopmail.com'')
   \<and> disposableError \<in> set (errors (validateEmail ''bob@yopmail.com''))
   \<and> \<not> isValid (validateEmail ''john doe@yopmail.com'')
   \<and> errors (validateEmail ''john doe@yopmail.com'') = [''Invalid email format'']"
proof -
  have d: "''yopmail.com'' \<in> DISPOSABLE_DOMAINS" by (simp add: DISPOSABLE_DOMAINS_def)
  have l: "''bob'' \<noteq> [] \<and> list_all notSpaceAt ''bob''" by (simp add: class_defs)
  have j: "\<not> (''john doe'' \<noteq> [] \<and> list_all notSpaceAt ''john doe'')"
    by (simp add: class_defs)
  show ?thesis
    using d l j disposable_rejected [OF d, of "''bob''"]
      disposable_rejected [OF d, of "''john doe''"]
    by simp
qed

text \<open>
  C5. For every password, \<open>isValid\<close> is true if and only if all eight checks of the
  returned structure are passed.
\<close>

theorem isValid_iff_all_checks_pass:
  "pw_isValid (validatePassword password)
     \<longleftrightarrow> allPassed (pw_checks (validatePassword password))"
proof (cases "password = []")
  case True
  then show ?thesis
    by (simp add: validatePassword_def allPassed_def values_of_def initialChecks_def)
next
  case False
  then have "pw_isValid (validatePassword password)
      = (collectErrors (pw_checks (validatePassword password)) = [])"
    by (rule validatePassword_isValid)
  also have "\<dots> = allPassed (pw_checks (validatePassword password))"
    using False by (intro collectErrors_empty_iff validatePassword_explained)
  finally show ?thesis .
qed

text \<open>C5, at a password that passes and at one that does not.\<close>

theorem isValid_iff_all_checks_pass_witness:
  "pw_isValid (validatePassword ''Passw0rd!'')
   \<and> allPassed (pw_checks (validatePassword ''Passw0rd!''))
   \<and> \<not> pw_isValid (validatePassword ''abc'')
   \<and> \<not> allPassed (pw_checks (validatePassword ''abc''))"
proof -
  have "\<not> pw_isValid (validatePassword ''abc'')" by (simp add: password_defs class_defs)
  then show ?thesis
    using strong_password isValid_iff_all_checks_pass [of "''Passw0rd!''"]
      isValid_iff_all_checks_pass [of "''abc''"]
    by simp
qed

text \<open>
  C6. For every reverse-geocoding answer, the city of the location record is the first
  non-empty value among the address's city, town and village, else \<open>Unknown\<close>; its state
  and country are the address's state and country, empty when missing; and the
  formatted string is the non-empty parts among that city, state and country joined
  with a comma and a space.
\<close>

theorem location_city_and_formatted:
  "su_location (requestLocation True (Coords lat lon) (GeocodingData a) tz st)
     = Some (buildLocation a lat lon tz)
   \<and> (let addr = (case a of None \<Rightarrow> emptyAddress | Some x \<Rightarrow> x);
          l = buildLocation a lat lon tz
      in city l = firstNonEmpty [addr_city addr, addr_town addr, addr_village addr] ''Unknown''
       \<and> state l = firstNonEmpty [addr_state addr] []
       \<and> country l = firstNonEmpty [addr_country addr] []
       \<and> latitude l = lat \<and> longitude l = lon \<and> timezone l = tz
       \<and> formatted l
           = join '', '' (filter (\<lambda>part. part \<noteq> [])
               [firstNonEmpty [addr_city addr, addr_town addr, addr_village addr] ''Unknown'',
                firstNonEmpty [addr_state addr] [],
                firstNonEmpty [addr_country addr] []]))"
proof -
  have ne: "or_else x (or_else y (or_else z ''Unknown'')) \<noteq> []" for x y z
    by (simp add: or_else_def split: option.splits)
  have one: "firstNonEmpty [x] [] = or_else x []" for x
    by (cases x) (simp_all add: or_else_def)
  have three: "firstNonEmpty [x, y, z] ''Unknown''
      = or_else x (or_else y (or_else z ''Unknown''))" for x y z
    by (simp add: or_else_first [symmetric])
  show ?thesis
    by (simp add: requestLocation_def buildLocation_def Let_def ne one three
        del: firstNonEmpty.simps)
qed

text \<open>C6, at an address with city, state and country, and at one with a town and a
  country but neither city nor state.\<close>

theorem location_city_and_formatted_witness:
  "formatted (buildLocation (Some \<lparr>addr_city = Some ''Austin'', addr_town = None,
       addr_village = None, addr_state = Some ''Texas'',
       addr_country = Some ''USA''\<rparr>) ''30.27'' ''-97.74'' ''America/Chicago'')
     = ''Austin, Texas, USA''
   \<and> state (buildLocation (Some \<lparr>addr_city = Some ''Austin'', addr_town = None,
       addr_village = None, addr_state = Some ''Texas'',
       addr_country = Some ''USA''\<rparr>) ''30.27'' ''-97.74'' ''America/Chicago'') = ''Texas''
   \<and> city (buildLocation (Some \<lparr>addr_city = None, addr_town = Some ''Delft'',
       addr_village = Some ''Abtswoude'', addr_state = Some [],
       addr_country = Some ''Netherlands''\<rparr>) ''52.01'' ''4.36'' ''Europe/Amsterdam'') = ''Delft''
   \<and> formatted (buildLocation (Some \<lparr>addr_city = None, addr_town = Some ''Delft'',
       addr_village = Some ''Abtswoude'', addr_state = Some [],
       addr_country = Some ''Netherlands''\<rparr>) ''52.01'' ''4.36'' ''Europe/Amsterdam'')
     = ''Delft, Netherlands''"
  using location_city_and_formatted [of "''30.27''" "''-97.74''"
      "Some \<lparr>addr_city = Some ''Austin'', addr_town = None, addr_village = None,
         addr_state = Some ''Texas'', addr_country = Some ''USA''\<rparr>" "''America/Chicago''"]
    location_city_and_formatted [of "''52.01''" "''4.36''"
      "Some \<lparr>addr_city = None, addr_town = Some ''Delft'', addr_village = Some ''Abtswoude'',
         addr_state = Some [], addr_country = Some ''Netherlands''\<rparr>" "''Europe/Amsterdam''"]
  by (simp add: Let_def)

text \<open>
  C7. Deleting the selected thread, confirmed and accepted by the backend, clears the
  selection, the message list and the durable last-thread record; with no thread
  selected, rename and delete make no backend call and change nothing but for the
  alert they show.
\<close>

theorem delete_clears_selection:
  "(thread st = Some t \<longrightarrow>
       thread (deleteChat True (Fulfilled ()) st) = None
     \<and> messages (deleteChat True (Fulfilled ()) st) = []
     \<and> localStorage (deleteChat True (Fulfilled ()) st) ''last-thread'' = None)
   \<and> (thread st = None \<longrightarrow>
       renameChat answer resp st = st\<lparr>effects := effects st @ [Alert ''No chat selected'']\<rparr>
     \<and> deleteChat confirmed resp st = st\<lparr>effects := effects st @ [Alert ''No chat selected'']\<rparr>
     \<and> calls (renameChat answer resp st) = calls st
     \<and> calls (deleteChat confirmed resp st) = calls st)"
  by (auto simp: deleteChat_def renameChat_def alert_def call_def setMessages_def calls_def
      Let_def)

text \<open>C7, at a shell with a selected thread and one message, and at the initial shell.\<close>

theorem delete_clears_selection_witness:
  "thread (deleteChat True (Fulfilled ())
      (initialChat\<lparr>messages := [Content User ''hi''],
         thread := Some \<lparr>thread_id = ''7'', thread_title = ''Notes''\<rparr>,
         localStorage := [''last-thread'' \<mapsto>
           ThreadJson \<lparr>thread_id = ''7'', thread_title = ''Notes''\<rparr>]\<rparr>)) = None
   \<and> messages (deleteChat True (Fulfilled ())
      (initialChat\<lparr>messages := [Content User ''hi''],
         thread := Some \<lparr>thread_id = ''7'', thread_title = ''Notes''\<rparr>,
         localStorage := [''last-thread'' \<mapsto>
           ThreadJson \<lparr>thread_id = ''7'', thread_title = ''Notes''\<rparr>]\<rparr>)) = []
   \<and> thread initialChat = None
   \<and> effects (deleteChat True (Fulfilled ()) initialChat) = [Alert ''No chat selected'']
   \<and> calls (renameChat (Some ''x'') (Fulfilled ()) initialChat) = []"
  using delete_clears_selection [of
      "initialChat\<lparr>messages := [Content User ''hi''],
         thread := Some \<lparr>thread_id = ''7'', thread_title = ''Notes''\<rparr>,
         localStorage := [''last-thread'' \<mapsto>
           ThreadJson \<lparr>thread_id = ''7'', thread_title = ''Notes''\<rparr>]\<rparr>"
      "\<lparr>thread_id = ''7'', thread_title = ''Notes''\<rparr>"]
    delete_clears_selection [of initialChat "\<lparr>thread_id = ''7'', thread_title = ''Notes''\<rparr>"
      "Some ''x''" "Fulfilled ()" True]
  by (simp add: initialChat_def calls_def)




text \<open>
  C9. After \<open>setAuth(t)\<close> the stored token and the default Authorization header agree:
  for a non-empty \<open>t\<close> the stored token is \<open>t\<close> and the header is \<open>Bearer t\<close>; for null both
  are absent; and after any call the header is \<open>Bearer s\<close> if and only if the stored token
  is \<open>s\<close>, and absent if and only if the token is.
\<close>

theorem setAuth_in_sync:
  "(t \<noteq> [] \<longrightarrow>
       getToken (setAuth (Some t) st) = Some t
     \<and> headers (setAuth (Some t) st) ''Authorization'' = Some (''Bearer '' @ t))
   \<and> getToken (setAuth None st) = None
   \<and> headers (setAuth None st) ''Authorization'' = None
   \<and> (getToken (setAuth token st) = Some s
        \<longleftrightarrow> headers (setAuth token st) ''Authorization'' = Some (''Bearer '' @ s))
   \<and> (getToken (setAuth token st) = None
        \<longleftrightarrow> headers (setAuth token st) ''Authorization'' = None)"
  by (auto simp: setAuth_def getToken_def split: option.splits)

text \<open>C9, at the token \<open>abc\<close> on a client without a session.\<close>

theorem setAuth_in_sync_witness:
  "''abc'' \<noteq> [] \<and> getToken (setAuth (Some ''abc'') initialApi) = Some ''abc''
   \<and> headers (setAuth (Some ''abc'') initialApi) ''Authorization'' = Some ''Bearer abc''"
  using setAuth_in_sync [of "''abc''" initialApi] by simp

text \<open>
  C10. An email that passes the format pattern has a domain with a dot in it, so the
  missing-dot message \<open>Email domain is invalid\<close> appears in no result of
  \<open>validateEmail\<close>.
\<close>

theorem missing_dot_unreachable:
  "(test_anchored emailRegex email \<longrightarrow>
      (\<exists>d. extractDomain email = Some d \<and> includes_str d ''.''))
   \<and> missingDotError \<notin> set (errors (validateEmail email))"
proof (cases "email \<noteq> [] \<and> test_anchored emailRegex email")
  case False
  then have "missingDotError \<notin> set (errors (validateEmail email))"
    by (auto simp: validateEmail_def missingDotError_def)
  moreover have "\<not> test_anchored emailRegex []"
    by (simp add: emailRegex_def Plus_def)
  ultimately show ?thesis using False by auto
next
  case True
  then obtain d where d: "extractDomain email = Some d" "d \<noteq> []" "includes_str d ''.''"
    using matched_domain by blast
  with True have "missingDotError \<notin> set (errors (validateEmail email))"
    by (simp add: validateEmail_def domainErrors_def Let_def missingDotError_def
        disposableError_def testDomainError_def)
  with d show ?thesis by simp
qed

text \<open>C10, at \<open>a@b.co\<close>.\<close>

theorem missing_dot_unreachable_witness:
  "test_anchored emailRegex ''a@b.co''
   \<and> extractDomain ''a@b.co'' = Some ''b.co'' \<and> includes_str ''b.co'' ''.''
   \<and> missingDotError \<notin> set (errors (validateEmail ''a@b.co''))"
proof -
  have m: "test_anchored emailRegex ''a@b.co''"
    by (simp add: emailRegex_def Plus_def Lit_def class_defs)
  have x: "extractDomain ''a@b.co'' = Some ''b.co''"
    by (simp add: extractDomain_def toLowerCase_def lowerChar_def class_defs)
  show ?thesis using m x missing_dot_unreachable [of "''a@b.co''"] by simp
qed

end
